theory Spec2Isabelle
  imports Complex_Main "HOL-Library.Sublist"
begin

section \<open>Group analysis (groupanalysis.py)\<close>

subsection \<open>Values and arrays\<close>

text \<open>
  A float64 value is finite, one of the two infinities, or not a number. A finite
  double is a rational number; the two signed zeros are both \<open>Finite 0\<close>.
\<close>

datatype fl = Finite rat | PosInf | NegInf | NaN

text \<open>Python exceptions raised by the two scripts; \<open>sys.exit(n)\<close> is \<open>SystemExit n\<close>.\<close>

datatype error = ValueError | OSError | SystemExit nat

text \<open>An n-dimensional array: its shape and its elements in row-major (C) order.\<close>

record ndarray =
  dims :: "nat list"
  flat :: "fl list"

text \<open>
  A loaded NIfTI image: \<open>img.shape\<close> and the voxel data \<open>img.get_fdata()\<close> returns.
  The affine and the header are carried along unread by the analysis.
\<close>

record image =
  img_shape :: "nat list"
  img_fdata :: "fl list"

definition get_fdata :: "image \<Rightarrow> ndarray" where
  "get_fdata img = \<lparr>dims = img_shape img, flat = img_fdata img\<rparr>"

text \<open>
  The numeric routines of numpy and scipy that round or approximate are parameters of
  the model: \<open>np.mean\<close> and \<open>np.std\<close> of one row (the latter with its \<open>ddof\<close>),
  \<open>np.sqrt\<close>, the elementwise quotient and product, \<open>stats.t.sf\<close> with its degrees
  of freedom and \<open>stats.norm.isf\<close>.
\<close>

record numlib =
  np_mean :: "fl list \<Rightarrow> fl"
  np_std :: "fl list \<Rightarrow> nat \<Rightarrow> fl"
  np_sqrt :: "fl \<Rightarrow> fl"
  np_divide :: "fl \<Rightarrow> fl \<Rightarrow> fl"
  np_multiply :: "fl \<Rightarrow> fl \<Rightarrow> fl"
  t_sf :: "fl \<Rightarrow> int \<Rightarrow> fl"
  norm_isf :: "fl \<Rightarrow> fl"

text \<open>\<open>np.abs\<close>, \<open>np.sign\<close> and \<open>np.nan_to_num\<close> are exact on every value.\<close>

fun np_abs :: "fl \<Rightarrow> fl" where
  "np_abs (Finite a) = Finite \<bar>a\<bar>"
| "np_abs PosInf = PosInf"
| "np_abs NegInf = PosInf"
| "np_abs NaN = NaN"

fun np_sign :: "fl \<Rightarrow> fl" where
  "np_sign (Finite a) = Finite (sgn a)"
| "np_sign PosInf = Finite 1"
| "np_sign NegInf = Finite (- 1)"
| "np_sign NaN = NaN"

fun nan_to_num :: "fl \<Rightarrow> fl \<Rightarrow> fl \<Rightarrow> fl \<Rightarrow> fl" where
  "nan_to_num (Finite a) nan posinf neginf = Finite a"
| "nan_to_num PosInf nan posinf neginf = posinf"
| "nan_to_num NegInf nan posinf neginf = neginf"
| "nan_to_num NaN nan posinf neginf = nan"

fun isfinite :: "fl \<Rightarrow> bool" where
  "isfinite (Finite a) = True"
| "isfinite PosInf = False"
| "isfinite NegInf = False"
| "isfinite NaN = False"


subsection \<open>Stacking and reshaping\<close>

text \<open>
  \<open>np.stack(arrays, axis=-1)\<close> raises \<open>ValueError\<close> on an empty list and on arrays
  of different shapes. Otherwise the new last axis runs over the arrays, so in row-major
  order the elements of position \<open>i\<close> of every array stand together.
\<close>

definition np_stack :: "ndarray list \<Rightarrow> error + ndarray" where
  "np_stack arrays =
     (if arrays = [] then Inl ValueError
      else if length (remdups (map dims arrays)) \<noteq> 1 then Inl ValueError
      else Inr \<lparr>dims = dims (hd arrays) @ [length arrays],
                flat = concat (map (\<lambda>i. map (\<lambda>a. flat a ! i) arrays)
                                   [0 ..< prod_list (dims (hd arrays))])\<rparr>)"

text \<open>\<open>a.reshape(-1, k)\<close>: the rows of \<open>k\<close> consecutive elements.\<close>

function reshape_rows :: "fl list \<Rightarrow> nat \<Rightarrow> fl list list" where
  "reshape_rows xs k =
     (if k = 0 \<or> xs = [] then [] else take k xs # reshape_rows (drop k xs) k)"
  by pat_completeness auto
termination
  by (relation "measure (\<lambda>(xs, k). length xs)") auto

subsection \<open>perform_group_analysis\<close>

definition perform_group_analysis ::
  "numlib \<Rightarrow> image list \<Rightarrow> error + (ndarray \<times> ndarray \<times> int)" where
  "perform_group_analysis L images =
     (let data_list = map get_fdata images in
      case np_stack data_list of
        Inl e \<Rightarrow> Inl e
      | Inr data_stack \<Rightarrow>
          (let shape = butlast (dims data_stack);
               num_subjects = last (dims data_stack);
               df = int num_subjects - 1;
               reshaped_data = reshape_rows (flat data_stack) num_subjects;
               means = map (np_mean L) reshaped_data;
               stds = map (\<lambda>row. np_std L row 1) reshaped_data;
               se = map (\<lambda>s. np_divide L s (np_sqrt L (Finite (of_nat num_subjects)))) stds;
               t_values = map2 (np_divide L) means se;
               t_values = map (\<lambda>t. nan_to_num t (Finite 0) (Finite 0) (Finite 0)) t_values;
               t_stat_data = \<lparr>dims = shape, flat = t_values\<rparr>;
               p_values = map (\<lambda>s. np_multiply L s (Finite 2))
                              (map (\<lambda>t. t_sf L t df) (map np_abs t_values));
               z_values = map (norm_isf L) p_values;
               z_values_signed = map2 (np_multiply L) (map np_sign t_values) z_values;
               z_values_signed =
                 map (\<lambda>z. nan_to_num z (Finite 0) (Finite 0) (Finite 0)) z_values_signed;
               z_stat_data = \<lparr>dims = shape, flat = z_values_signed\<rparr>
           in Inr (t_stat_data, z_stat_data, df)))"

subsection \<open>The computation voxel by voxel\<close>

text \<open>All images of a list have the shape of the first one.\<close>

definition same_shape :: "image list \<Rightarrow> bool" where
  "same_shape images = (\<forall>img\<in>set images. img_shape img = img_shape (hd images))"

text \<open>
  The values of one voxel across the subjects, for every voxel in row-major order: the
  rows of \<open>data_stack.reshape(-1, num_subjects)\<close>.
\<close>

definition voxel_rows :: "image list \<Rightarrow> fl list list" where
  "voxel_rows images =
     map (\<lambda>i. map (\<lambda>img. img_fdata img ! i) images) [0 ..< prod_list (img_shape (hd images))]"

text \<open>What lines 88 to 101 compute at one voxel, from its row of subject values.\<close>

definition t_value :: "numlib \<Rightarrow> nat \<Rightarrow> fl list \<Rightarrow> fl" where
  "t_value L k row =
     nan_to_num (np_divide L (np_mean L row)
                   (np_divide L (np_std L row 1) (np_sqrt L (Finite (of_nat k)))))
       (Finite 0) (Finite 0) (Finite 0)"

text \<open>What lines 120 to 129 compute at one voxel, from its t-value.\<close>

definition z_value :: "numlib \<Rightarrow> int \<Rightarrow> fl \<Rightarrow> fl" where
  "z_value L df t =
     nan_to_num (np_multiply L (np_sign t)
                   (norm_isf L (np_multiply L (t_sf L (np_abs t) df) (Finite 2))))
       (Finite 0) (Finite 0) (Finite 0)"

subsection \<open>The statistics as the specification words them\<close>




subsection \<open>An instance of the numeric library\<close>

text \<open>
  To evaluate the model at concrete inputs the parameters are instantiated with exact
  rational arithmetic that follows the IEEE rules for zeros, infinities and NaN. The
  square root is exact on the squares of 0 to 4 and a Newton step from 1 elsewhere; the
  two distribution functions are rational stand-ins with the values at 0, 1/2 and 1 and
  the monotonicity of the real ones. The instance only serves as a concrete input.
\<close>

fun exact_divide :: "fl \<Rightarrow> fl \<Rightarrow> fl" where
  "exact_divide (Finite a) (Finite b) =
     (if b = 0 then (if a = 0 then NaN else if 0 < a then PosInf else NegInf)
      else Finite (a / b))"
| "exact_divide (Finite a) PosInf = Finite 0"
| "exact_divide (Finite a) NegInf = Finite 0"
| "exact_divide PosInf (Finite b) = (if b < 0 then NegInf else PosInf)"
| "exact_divide NegInf (Finite b) = (if b < 0 then PosInf else NegInf)"
| "exact_divide x y = NaN"

fun exact_multiply :: "fl \<Rightarrow> fl \<Rightarrow> fl" where
  "exact_multiply (Finite a) (Finite b) = Finite (a * b)"
| "exact_multiply (Finite a) PosInf =
     (if a = 0 then NaN else if 0 < a then PosInf else NegInf)"
| "exact_multiply (Finite a) NegInf =
     (if a = 0 then NaN else if 0 < a then NegInf else PosInf)"
| "exact_multiply PosInf (Finite b) =
     (if b = 0 then NaN else if 0 < b then PosInf else NegInf)"
| "exact_multiply NegInf (Finite b) =
     (if b = 0 then NaN else if 0 < b then NegInf else PosInf)"
| "exact_multiply PosInf PosInf = PosInf"
| "exact_multiply PosInf NegInf = NegInf"
| "exact_multiply NegInf PosInf = NegInf"
| "exact_multiply NegInf NegInf = PosInf"
| "exact_multiply x y = NaN"

fun finite_values :: "fl list \<Rightarrow> rat list option" where
  "finite_values [] = Some []"
| "finite_values (Finite a # xs) =
     (case finite_values xs of None \<Rightarrow> None | Some as \<Rightarrow> Some (a # as))"
| "finite_values (x # xs) = None"

definition exact_sqrt_rat :: "rat \<Rightarrow> rat" where
  "exact_sqrt_rat q =
     (case find (\<lambda>r. r * r = q) [0, 1, 2, 3, 4] of Some r \<Rightarrow> r | None \<Rightarrow> (q + 1) / 2)"

fun exact_sqrt :: "fl \<Rightarrow> fl" where
  "exact_sqrt (Finite a) = (if a < 0 then NaN else Finite (exact_sqrt_rat a))"
| "exact_sqrt PosInf = PosInf"
| "exact_sqrt NegInf = NaN"
| "exact_sqrt NaN = NaN"

definition exact_mean :: "fl list \<Rightarrow> fl" where
  "exact_mean xs =
     (case finite_values xs of
        None \<Rightarrow> NaN
      | Some as \<Rightarrow> if as = [] then NaN else Finite (sum_list as / of_nat (length as)))"

definition exact_std :: "fl list \<Rightarrow> nat \<Rightarrow> fl" where
  "exact_std xs ddof =
     (case finite_values xs of
        None \<Rightarrow> NaN
      | Some as \<Rightarrow>
          if length as \<le> ddof then NaN
          else (let m = sum_list as / of_nat (length as)
                in exact_sqrt (Finite (sum_list (map (\<lambda>a. (a - m) * (a - m)) as)
                                         / of_nat (length as - ddof)))))"

fun standin_t_sf :: "fl \<Rightarrow> int \<Rightarrow> fl" where
  "standin_t_sf (Finite a) df =
     (if df \<le> 0 then NaN
      else if 0 \<le> a then Finite (1 / (2 * (1 + a)))
      else Finite (1 - 1 / (2 * (1 - a))))"
| "standin_t_sf PosInf df = (if df \<le> 0 then NaN else Finite 0)"
| "standin_t_sf NegInf df = (if df \<le> 0 then NaN else Finite 1)"
| "standin_t_sf NaN df = NaN"

fun standin_norm_isf :: "fl \<Rightarrow> fl" where
  "standin_norm_isf (Finite p) =
     (if p < 0 \<or> 1 < p then NaN
      else if p = 0 then PosInf
      else if p = 1 then NegInf
      else Finite ((1 - 2 * p) / (p * (1 - p))))"
| "standin_norm_isf x = NaN"

definition exact_lib :: numlib where
  "exact_lib = \<lparr>np_mean = exact_mean, np_std = exact_std, np_sqrt = exact_sqrt,
                 np_divide = exact_divide, np_multiply = exact_multiply,
                 t_sf = standin_t_sf, norm_isf = standin_norm_isf\<rparr>"

text \<open>Four subjects, two voxels each; the second voxel has the same value in all four.\<close>

definition example_images :: "image list" where
  "example_images =
     [\<lparr>img_shape = [2], img_fdata = [Finite 6, Finite 5]\<rparr>,
      \<lparr>img_shape = [2], img_fdata = [Finite 2, Finite 5]\<rparr>,
      \<lparr>img_shape = [2], img_fdata = [Finite 2, Finite 5]\<rparr>,
      \<lparr>img_shape = [2], img_fdata = [Finite 2, Finite 5]\<rparr>]"

section \<open>The manifest loader (load_files)\<close>

text \<open>
  A Python string is a sequence of Unicode code points. The loader tells whitespace from
  other characters, and Python's whitespace reaches beyond one byte, so the strings of
  the loader are lists of code points; \<open>ustr\<close> writes one from a literal.
\<close>

type_synonym pystr = "int list"

definition ustr :: "string \<Rightarrow> pystr" where
  "ustr s = map of_char s"

text \<open>
  What the loader reads from outside: the text of a file, or the exception that
  \<open>open\<close>, the read or the decoding raises (\<open>OSError\<close>, or \<open>ValueError\<close> for a
  \<open>UnicodeDecodeError\<close>); and \<open>nib.load\<close> (\<open>None\<close> where it raises).
\<close>

record loader_env =
  read_text :: "pystr \<Rightarrow> error + pystr"
  nib_load :: "pystr \<Rightarrow> image option"

text \<open>The lines \<open>print\<close> writes, with the formatted values as arguments.\<close>

datatype message =
    Loading nat
  | ErrorLoading pystr
  | DifferentDimensions
  | PathShape pystr "nat list"

text \<open>
  Iterating over a file opened in text mode yields its lines, each with its newline;
  \<open>\r\n\<close> and a lone \<open>\r\<close> are read as \<open>\n\<close>. The first argument is the
  line read so far, reversed.
\<close>

fun file_lines :: "pystr \<Rightarrow> pystr \<Rightarrow> pystr list" where
  "file_lines cur [] = (if cur = [] then [] else [rev cur])"
| "file_lines cur (c # cs) =
     (if c = 0x0A then rev (0x0A # cur) # file_lines [] cs
      else if c = 0x0D then
        (case cs of
           [] \<Rightarrow> [rev (0x0A # cur)]
         | d # ds \<Rightarrow>
             if d = 0x0A then rev (0x0A # cur) # file_lines [] ds
             else rev (0x0A # cur) # file_lines [] cs)
      else file_lines (c # cur) cs)"

text \<open>
  \<open>str.strip()\<close> removes the whitespace at both ends: the code points for which
  \<open>str.isspace\<close> holds, which are the 29 listed.
\<close>

definition isspace :: "int \<Rightarrow> bool" where
  "isspace c = (c \<in> set [0x09, 0x0A, 0x0B, 0x0C, 0x0D, 0x1C, 0x1D, 0x1E, 0x1F, 0x20,
                           0x85, 0xA0, 0x1680,
                           0x2000, 0x2001, 0x2002, 0x2003, 0x2004, 0x2005, 0x2006, 0x2007,
                           0x2008, 0x2009, 0x200A,
                           0x2028, 0x2029, 0x202F, 0x205F, 0x3000])"

definition strip :: "pystr \<Rightarrow> pystr" where
  "strip s = rev (dropWhile isspace (rev (dropWhile isspace s)))"

definition file_paths_of :: "pystr \<Rightarrow> pystr list" where
  "file_paths_of txt = map strip (filter (\<lambda>line. strip line \<noteq> []) (file_lines [] txt))"

text \<open>
  The loop of lines 28 to 34: the images in order, or the first path that fails to
  load.
\<close>

fun load_images :: "(pystr \<Rightarrow> image option) \<Rightarrow> pystr list \<Rightarrow> pystr + image list" where
  "load_images ld [] = Inr []"
| "load_images ld (path # paths) =
     (case ld path of
        None \<Rightarrow> Inl path
      | Some img \<Rightarrow>
          (case load_images ld paths of
             Inl bad \<Rightarrow> Inl bad
           | Inr images \<Rightarrow> Inr (img # images)))"

text \<open>The result of the loader and what it printed.\<close>

definition load_files :: "loader_env \<Rightarrow> pystr \<Rightarrow> (error + image list) \<times> message list" where
  "load_files E file_list_path =
     (case read_text E file_list_path of
        Inl e \<Rightarrow> (Inl e, [])
      | Inr txt \<Rightarrow>
          (let file_paths = file_paths_of txt in
           if file_paths = [] then (Inl ValueError, [])
           else
             (case load_images (nib_load E) file_paths of
                Inl bad \<Rightarrow> (Inl (SystemExit 1), [Loading (length file_paths), ErrorLoading bad])
              | Inr images \<Rightarrow>
                  (let shapes = map img_shape images in
                   if length (remdups shapes) > 1 then
                     (Inl (SystemExit 1),
                      [Loading (length file_paths), DifferentDimensions]
                        @ map2 PathShape file_paths shapes)
                   else (Inr images, [Loading (length file_paths)])))))"

text \<open>
  The cases of failure as the specification names them: the manifest yields no path,
  some path fails to load, the loaded volumes do not all have one shape; and the
  manifest itself cannot be read.
\<close>

definition manifest_unreadable :: "loader_env \<Rightarrow> pystr \<Rightarrow> bool" where
  "manifest_unreadable E file_list_path =
     (case read_text E file_list_path of Inl e \<Rightarrow> True | Inr txt \<Rightarrow> False)"

definition manifest_paths :: "loader_env \<Rightarrow> pystr \<Rightarrow> pystr list option" where
  "manifest_paths E file_list_path =
     (case read_text E file_list_path of Inl e \<Rightarrow> None | Inr txt \<Rightarrow> Some (file_paths_of txt))"

definition yields_zero_paths :: "loader_env \<Rightarrow> pystr \<Rightarrow> bool" where
  "yields_zero_paths E file_list_path = (manifest_paths E file_list_path = Some [])"

definition some_path_fails_to_load :: "loader_env \<Rightarrow> pystr \<Rightarrow> bool" where
  "some_path_fails_to_load E file_list_path =
     (case manifest_paths E file_list_path of
        None \<Rightarrow> False
      | Some paths \<Rightarrow> list_ex (\<lambda>path. nib_load E path = None) paths)"

definition shapes_differ :: "loader_env \<Rightarrow> pystr \<Rightarrow> bool" where
  "shapes_differ E file_list_path =
     (case manifest_paths E file_list_path of
        None \<Rightarrow> False
      | Some paths \<Rightarrow>
          list_all (\<lambda>path. nib_load E path \<noteq> None) paths \<and>
          list_ex (\<lambda>p. list_ex (\<lambda>q. map_option img_shape (nib_load E p)
                                       \<noteq> map_option img_shape (nib_load E q)) paths) paths)"

definition fails :: "(error + image list) \<times> message list \<Rightarrow> bool" where
  "fails r = (case fst r of Inl e \<Rightarrow> True | Inr images \<Rightarrow> False)"

text \<open>
  Two environments to evaluate the loader in: no readable manifest at all, and a
  manifest of two volumes of different shapes. The second manifest has blanks and a tab
  around its second path, a line that holds only a no-break space, and an empty line.
\<close>

definition missing_manifest_env :: loader_env where
  "missing_manifest_env = \<lparr>read_text = (\<lambda>path. Inl OSError), nib_load = (\<lambda>path. None)\<rparr>"

definition two_shapes_manifest :: pystr where
  "two_shapes_manifest =
     ustr ''a.nii.gz'' @ [0x0A] @ ustr ''  b.nii.gz '' @ [0x09, 0x0D, 0x0A]
       @ [0xA0, 0x0A] @ [0x0A]"

definition two_shapes_env :: loader_env where
  "two_shapes_env =
     \<lparr>read_text = (\<lambda>path. if path = ustr ''files.txt'' then Inr two_shapes_manifest
                              else Inl OSError),
      nib_load = (\<lambda>path.
         if path = ustr ''a.nii.gz''
         then Some \<lparr>img_shape = [2], img_fdata = [Finite 1, Finite 2]\<rparr>
         else if path = ustr ''b.nii.gz'' then Some \<lparr>img_shape = [1], img_fdata = [Finite 3]\<rparr>
         else None)\<rparr>"

section \<open>Preparation (prepare.py)\<close>

subsection \<open>Strings and paths\<close>

text \<open>The decimal digits of a natural number and of an integer, as \<open>str\<close> gives them.\<close>

definition digit_char :: "nat \<Rightarrow> char" where
  "digit_char d = ''0123456789'' ! d"

function str_nat :: "nat \<Rightarrow> string" where
  "str_nat n = (if n < 10 then [digit_char n] else str_nat (n div 10) @ [digit_char (n mod 10)])"
  by pat_completeness auto
termination
  by (relation "measure id") auto

definition str_int :: "int \<Rightarrow> string" where
  "str_int i = (if i < 0 then CHR ''-'' # str_nat (nat (- i)) else str_nat (nat i))"



text \<open>\<open>os.path.join\<close> and \<open>os.path.basename\<close> on POSIX paths.\<close>

definition path_join :: "string \<Rightarrow> string \<Rightarrow> string" where
  "path_join a b =
     (if prefix ''/'' b then b
      else if a = [] \<or> suffix ''/'' a then a @ b
      else a @ ''/'' @ b)"

definition basename :: "string \<Rightarrow> string" where
  "basename p = rev (takeWhile (\<lambda>c. c \<noteq> CHR ''/'') (rev p))"

text \<open>The operator \<open>in\<close> on two strings: the first occurs in the second.\<close>

fun py_in :: "string \<Rightarrow> string \<Rightarrow> bool" where
  "py_in s [] = (s = [])"
| "py_in s (c # cs) = (prefix s (c # cs) \<or> py_in s cs)"

subsection \<open>The registration driver\<close>

text \<open>
  The driver acts on the outside world through \<open>os.makedirs\<close>, \<open>glob.glob\<close>,
  \<open>os.path.exists\<close> and \<open>subprocess.run\<close>. The world is a state \<open>'w\<close> and the four
  operations are parameters. \<open>makedirs\<close> gives \<open>None\<close> where it raises. A command
  run with \<open>check=True\<close> completes, raises \<open>CalledProcessError\<close> on a non-zero exit
  status, or cannot be started at all, which raises \<open>OSError\<close>.
\<close>

datatype run_outcome = Completed | NonZeroExit | LaunchFailed

record 'w os_ops =
  makedirs :: "'w \<Rightarrow> string \<Rightarrow> 'w option"
  glob :: "'w \<Rightarrow> string \<Rightarrow> string list"
  path_exists :: "'w \<Rightarrow> string \<Rightarrow> bool"
  run :: "'w \<Rightarrow> string list \<Rightarrow> run_outcome \<times> 'w"






definition output_path :: "string \<Rightarrow> string \<Rightarrow> string \<Rightarrow> string" where
  "output_path output_dir subject_id contrast_file =
     path_join output_dir (subject_id @ ''_'' @ basename contrast_file)"









subsection \<open>The manifest writer\<close>

text \<open>
  \<open>create_file_list\<close> writes the file \<open>output_file\<close> and prints the number of paths
  written. The files are a map from paths to their text; \<open>open\<close> for writing raises
  where the path is not writable.
\<close>

definition create_file_list ::
  "(string \<Rightarrow> bool) \<Rightarrow> string list \<Rightarrow> string \<Rightarrow> int option \<Rightarrow> (string \<rightharpoonup> string)
     \<Rightarrow> error + (string \<rightharpoonup> string) \<times> nat" where
  "create_file_list writable registered output_file contrast_num files =
     (let filtered_files =
            (case contrast_num of
               Some n \<Rightarrow>
                 filter (\<lambda>f. py_in (''.cope'' @ str_int n) f \<or> py_in (''.zstat'' @ str_int n) f)
                   registered
             | None \<Rightarrow> registered)
      in if \<not> writable output_file then Inl OSError
         else Inr (files(output_file \<mapsto> concat (map (\<lambda>file_path. file_path @ [CHR 0x0A])
                                                    filtered_files)),
                   length filtered_files))"

text \<open>Four registered paths to evaluate the manifest writer on.\<close>

definition example_registered :: "string list" where
  "example_registered =
     [''out/sub-01_a.cope3.nii.gz'', ''out/sub-01_a.cope1.nii.gz'',
      ''out/sub-02_a.zstat3.nii.gz'', ''out/sub-02_a.cope13.nii.gz'']"

text \<open>
  A small world to run the driver in: the paths that exist, and the contrast files on
  which the registration command exits with a non-zero status. A \<open>*\<close> of a pattern
  matches any run of characters other than \<open>/\<close>.
\<close>

record test_world =
  present :: "string list"
  failing :: "string list"

fun wildcard_match :: "string \<Rightarrow> string \<Rightarrow> bool" where
  "wildcard_match [] s = (s = [])"
| "wildcard_match (p # ps) [] = (p = CHR ''*'' \<and> wildcard_match ps [])"
| "wildcard_match (p # ps) (c # cs) =
     (if p = CHR ''*''
      then wildcard_match ps (c # cs) \<or> (c \<noteq> CHR ''/'' \<and> wildcard_match (p # ps) cs)
      else p = c \<and> wildcard_match ps cs)"

text \<open>
  In the small world \<open>makedirs\<close> succeeds, \<open>glob\<close> lists the matching paths that
  exist, and the command creates its output unless its input is one of the failing files.
\<close>

definition test_os :: "test_world os_ops" where
  "test_os =
     \<lparr>makedirs = (\<lambda>w d. Some w),
      glob = (\<lambda>w pattern. filter (wildcard_match pattern) (present w)),
      path_exists = (\<lambda>w path. path \<in> set (present w)),
      run = (\<lambda>w cmd. if cmd ! 2 \<in> set (failing w) then (NonZeroExit, w)
                       else (Completed, w\<lparr>present := present w @ [last cmd]\<rparr>))\<rparr>"

definition example_world :: test_world where
  "example_world =
     \<lparr>present = [''in/sub-01/a.cope1.nii.gz'', ''in/sub-01/a.cope2.nii.gz'', ''in/sub-01/reg.mat'',
                 ''in/sub-02/a.cope1.nii.gz'',
                 ''in/sub-03/reg.mat'',
                 ''in/sub-04/a.cope1.nii.gz'', ''in/sub-04/reg.mat'',
                 ''out/sub-04_a.cope1.nii.gz''],
      failing = [''in/sub-01/a.cope2.nii.gz'']\<rparr>"








subsection \<open>IEEE 754 binary64 arithmetic\<close>

text \<open>
  Where a claim depends on what numpy computes, the arithmetic is made concrete: the
  binary64 format with round-to-nearest, ties to even, every basic operation and the
  square root correctly rounded, as IEEE 754 prescribes and numpy's \<open>float64\<close> follows.
\<close>

function bit_length :: "int \<Rightarrow> nat" where
  "bit_length n = (if n \<le> 0 then 0 else Suc (bit_length (n div 2)))"
  by pat_completeness auto
termination
  by (relation "measure nat") auto

definition pow2 :: "int \<Rightarrow> rat" where
  "pow2 e = (if 0 \<le> e then 2 ^ nat e else 1 / 2 ^ nat (- e))"

text \<open>The integer part of the binary logarithm of a positive rational.\<close>

definition floor_log2 :: "rat \<Rightarrow> int" where
  "floor_log2 x =
     (if 1 \<le> x then int (bit_length \<lfloor>x\<rfloor>) - 1
      else - int (bit_length (\<lceil>1 / x\<rceil> - 1)))"

definition round_half_even :: "rat \<Rightarrow> int" where
  "round_half_even y =
     (let f = \<lfloor>y\<rfloor>; r = y - of_int f
      in if r < 1 / 2 then f
         else if 1 / 2 < r then f + 1
         else if even f then f else f + 1)"

text \<open>
  The binary64 value nearest to a rational: 53 significant bits, the unit in the last
  place never below \<open>2^-1074\<close>, and an infinity from \<open>2^1024\<close> on.
\<close>

definition round_binary64 :: "rat \<Rightarrow> fl" where
  "round_binary64 x =
     (if x = 0 then Finite 0
      else
        (let e = max (floor_log2 \<bar>x\<bar> - 52) (- 1074);
             r = of_int (round_half_even (\<bar>x\<bar> / pow2 e)) * pow2 e
         in if pow2 1024 \<le> r then (if 0 < x then PosInf else NegInf)
            else Finite (sgn x * r)))"

fun ieee_add :: "fl \<Rightarrow> fl \<Rightarrow> fl" where
  "ieee_add (Finite a) (Finite b) = round_binary64 (a + b)"
| "ieee_add NaN y = NaN"
| "ieee_add x NaN = NaN"
| "ieee_add PosInf NegInf = NaN"
| "ieee_add NegInf PosInf = NaN"
| "ieee_add PosInf y = PosInf"
| "ieee_add NegInf y = NegInf"
| "ieee_add x PosInf = PosInf"
| "ieee_add x NegInf = NegInf"

fun ieee_neg :: "fl \<Rightarrow> fl" where
  "ieee_neg (Finite a) = Finite (- a)"
| "ieee_neg PosInf = NegInf"
| "ieee_neg NegInf = PosInf"
| "ieee_neg NaN = NaN"

definition ieee_sub :: "fl \<Rightarrow> fl \<Rightarrow> fl" where
  "ieee_sub x y = ieee_add x (ieee_neg y)"

fun ieee_mul :: "fl \<Rightarrow> fl \<Rightarrow> fl" where
  "ieee_mul (Finite a) (Finite b) = round_binary64 (a * b)"
| "ieee_mul x y = exact_multiply x y"

fun ieee_div :: "fl \<Rightarrow> fl \<Rightarrow> fl" where
  "ieee_div (Finite a) (Finite b) =
     (if b = 0 then exact_divide (Finite a) (Finite b) else round_binary64 (a / b))"
| "ieee_div x y = exact_divide x y"

text \<open>The integer square root, bit by bit from the top.\<close>

fun isqrt_bits :: "nat \<Rightarrow> int \<Rightarrow> int \<Rightarrow> int" where
  "isqrt_bits k n r =
     (if k = 0 then r
      else if (r + 2 ^ (k - 1)) * (r + 2 ^ (k - 1)) \<le> n
        then isqrt_bits (k - 1) n (r + 2 ^ (k - 1))
        else isqrt_bits (k - 1) n r)"

definition isqrt :: "int \<Rightarrow> int" where
  "isqrt n = isqrt_bits (bit_length n) n 0"

text \<open>
  The correctly rounded square root of a positive rational \<open>a\<close>: with \<open>u\<close> the unit in
  the last place of the result, the integer part \<open>n\<close> of \<open>sqrt (a / u^2)\<close> and the
  comparison of the rest with one half.
\<close>

definition sqrt_binary64 :: "rat \<Rightarrow> rat" where
  "sqrt_binary64 a =
     (let u = pow2 (floor_log2 a div 2 - 52);
          y = a / (u * u);
          n = isqrt \<lfloor>y\<rfloor>;
          m = (if 4 * y < of_int ((2 * n + 1) * (2 * n + 1)) then n
               else if of_int ((2 * n + 1) * (2 * n + 1)) < 4 * y then n + 1
               else if even n then n else n + 1)
      in of_int m * u)"

fun ieee_sqrt :: "fl \<Rightarrow> fl" where
  "ieee_sqrt (Finite a) =
     (if a < 0 then NaN else if a = 0 then Finite 0 else Finite (sqrt_binary64 a))"
| "ieee_sqrt PosInf = PosInf"
| "ieee_sqrt NegInf = NaN"
| "ieee_sqrt NaN = NaN"

text \<open>
  numpy's reductions over one row of fewer than eight values: the sum in array order;
  \<open>np.mean\<close> as the sum divided by the count; \<open>np.std\<close> as the root of the sum of
  the squared deviations from the mean divided by the count less \<open>ddof\<close>. On the
  rows evaluated below every order of summation gives the same sum.
\<close>

definition ieee_sum :: "fl list \<Rightarrow> fl" where
  "ieee_sum xs = foldl ieee_add (Finite 0) xs"

definition ieee_mean :: "fl list \<Rightarrow> fl" where
  "ieee_mean xs = ieee_div (ieee_sum xs) (Finite (of_nat (length xs)))"

definition ieee_std :: "fl list \<Rightarrow> nat \<Rightarrow> fl" where
  "ieee_std xs ddof =
     (let arrmean = ieee_mean xs;
          x = map (\<lambda>v. ieee_sub v arrmean) xs;
          x = map (\<lambda>v. ieee_mul v v) x;
          ret = ieee_div (ieee_sum x) (Finite (of_nat (length xs - ddof)))
      in ieee_sqrt ret)"

text \<open>The library computes its statistics in binary64 arithmetic.\<close>

definition ieee_statistics :: "numlib \<Rightarrow> bool" where
  "ieee_statistics L =
     (np_mean L = ieee_mean \<and> np_std L = ieee_std \<and> np_sqrt L = ieee_sqrt \<and>
      np_divide L = ieee_div)"

text \<open>
  What the analysis needs of the two distribution functions and of the product at one
  voxel with \<open>t = 1/2\<close> and three degrees of freedom: the survival function of the t
  distribution lies between 1/4 and 1/2 there (it is 0.3257), doubling such a value is
  exact, the inverse survival function of the normal distribution is negative above 1/2,
  and the product with 1 is exact.
\<close>

definition small_t_laws :: "numlib \<Rightarrow> bool" where
  "small_t_laws L =
     ((\<exists>s. t_sf L (Finite (1 / 2)) 3 = Finite s \<and> 1 / 4 < s \<and> s < 1 / 2) \<and>
      (\<forall>s. 1 / 4 < s \<and> s < 1 / 2 \<longrightarrow> np_multiply L (Finite s) (Finite 2) = Finite (2 * s)) \<and>
      (\<forall>p. 1 / 2 < p \<and> p < 1 \<longrightarrow> (\<exists>q. norm_isf L (Finite p) = Finite q \<and> q < 0)) \<and>
      (\<forall>q. np_multiply L (Finite 1) (Finite q) = Finite q))"

text \<open>
  An instance with the statistics in binary64 arithmetic, the exact product and the
  stand-ins for the two distribution functions.
\<close>

definition ieee_lib :: numlib where
  "ieee_lib = \<lparr>np_mean = ieee_mean, np_std = ieee_std, np_sqrt = ieee_sqrt,
                np_divide = ieee_div, np_multiply = exact_multiply,
                t_sf = standin_t_sf, norm_isf = standin_norm_isf\<rparr>"

text \<open>The float64 nearest to 0.1, and three volumes of one voxel that all hold it.\<close>

definition tenth :: rat where
  "tenth = 3602879701896397 / 36028797018963968"


text \<open>Four volumes of one voxel whose values have mean 1/2 and standard error 1.\<close>

definition small_t_images :: "image list" where
  "small_t_images =
     [\<lparr>img_shape = [1, 1, 1], img_fdata = [Finite (7 / 2)]\<rparr>,
      \<lparr>img_shape = [1, 1, 1], img_fdata = [Finite (- (1 / 2))]\<rparr>,
      \<lparr>img_shape = [1, 1, 1], img_fdata = [Finite (- (1 / 2))]\<rparr>,
      \<lparr>img_shape = [1, 1, 1], img_fdata = [Finite (- (1 / 2))]\<rparr>]"




section \<open>Properties of the group analysis\<close>

declare reshape_rows.simps [simp del]

lemma remdups_one: "length (remdups xs) = 1 \<longleftrightarrow> xs \<noteq> [] \<and> (\<forall>x\<in>set xs. x = hd xs)"
proof
  assume "length (remdups xs) = 1"
  then have c: "card (set xs) = 1" by (simp add: length_remdups_card_conv)
  then obtain y where y: "set xs = {y}" by (auto simp: card_1_singleton_iff)
  then have ne: "xs \<noteq> []" by auto
  then have "hd xs \<in> set xs" by simp
  with y have "hd xs = y" by simp
  with y ne show "xs \<noteq> [] \<and> (\<forall>x\<in>set xs. x = hd xs)" by auto
next
  assume a: "xs \<noteq> [] \<and> (\<forall>x\<in>set xs. x = hd xs)"
  then have "set xs = {hd xs}" by (cases xs) auto
  then have "card (set xs) = 1" by simp
  then show "length (remdups xs) = 1" by (simp add: length_remdups_card_conv)
qed

lemma reshape_rows_append:
  "0 < k \<Longrightarrow> length r = k \<Longrightarrow> reshape_rows (r @ xs) k = r # reshape_rows xs k"
  by (subst reshape_rows.simps) auto

lemma reshape_rows_Nil: "reshape_rows [] k = []"
  by (simp add: reshape_rows.simps)

lemma reshape_rows_concat:
  "0 < k \<Longrightarrow> \<forall>r\<in>set rows. length r = k \<Longrightarrow> reshape_rows (concat rows) k = rows"
  by (induction rows) (simp_all add: reshape_rows_append reshape_rows_Nil)

lemma zip_map_same: "zip (map f xs) (map g xs) = map (\<lambda>x. (f x, g x)) xs"
  by (induction xs) simp_all

lemma dims_get_fdata: "dims \<circ> get_fdata = img_shape"
  by (rule ext) (simp add: get_fdata_def)

lemma stack_shapes:
  "length (remdups (map dims (map get_fdata images))) = 1 \<longleftrightarrow>
     images \<noteq> [] \<and> same_shape images"
  unfolding remdups_one map_map dims_get_fdata
  by (cases images) (auto simp: same_shape_def)

lemma np_stack_fdata:
  assumes "images \<noteq> []" "same_shape images"
  shows "np_stack (map get_fdata images) =
           Inr \<lparr>dims = img_shape (hd images) @ [length images],
                flat = concat (voxel_rows images)\<rparr>"
proof -
  have "length (remdups (map dims (map get_fdata images))) = 1"
    using assms stack_shapes [of images] by blast
  then show ?thesis
    using assms(1)
    by (simp add: np_stack_def voxel_rows_def get_fdata_def hd_map comp_def)
qed

lemma np_stack_fails:
  assumes "images = [] \<or> \<not> same_shape images"
  shows "np_stack (map get_fdata images) = Inl ValueError"
proof (cases "images = []")
  case True
  then show ?thesis by (simp add: np_stack_def)
next
  case False
  with assms have "\<not> same_shape images" by simp
  then have "length (remdups (map dims (map get_fdata images))) \<noteq> 1"
    using stack_shapes [of images] by blast
  then show ?thesis
    using False by (simp add: np_stack_def)
qed

lemma perform_group_analysis_Inr:
  assumes "images \<noteq> []" "same_shape images"
  shows "perform_group_analysis L images =
           Inr (\<lparr>dims = img_shape (hd images),
                 flat = map (t_value L (length images)) (voxel_rows images)\<rparr>,
                \<lparr>dims = img_shape (hd images),
                 flat = map (z_value L (int (length images) - 1))
                          (map (t_value L (length images)) (voxel_rows images))\<rparr>,
                int (length images) - 1)"
proof -
  have len: "0 < length images" using assms(1) by simp
  have rows: "\<forall>r\<in>set (voxel_rows images). length r = length images"
    by (auto simp: voxel_rows_def)
  have rr: "reshape_rows (concat (voxel_rows images)) (length images) = voxel_rows images"
    using reshape_rows_concat [OF len rows] .
  show ?thesis
    unfolding perform_group_analysis_def
    by (simp add: np_stack_fdata [OF assms] Let_def rr zip_map_same t_value_def z_value_def
        comp_def)
qed

lemma perform_group_analysis_Inl:
  assumes "images = [] \<or> \<not> same_shape images"
  shows "perform_group_analysis L images = Inl ValueError"
  unfolding perform_group_analysis_def
  by (simp add: np_stack_fails [OF assms])

lemma example_run:
  "perform_group_analysis exact_lib example_images =
     Inr (\<lparr>dims = [2], flat = [Finite 3, Finite 0]\<rparr>,
          \<lparr>dims = [2], flat = [Finite (8 / 3), Finite 0]\<rparr>, 3)"
  by code_simp

lemma nan_to_num_zero:
  "nan_to_num x (Finite 0) (Finite 0) (Finite 0) = (if isfinite x then x else Finite 0)"
  by (cases x) simp_all


lemma perform_group_analysis_cases:
  assumes "perform_group_analysis L images = Inr (t, z, df)"
  shows "images \<noteq> [] \<and> same_shape images"
proof (rule ccontr)
  assume "\<not> (images \<noteq> [] \<and> same_shape images)"
  then have "images = [] \<or> \<not> same_shape images" by blast
  from perform_group_analysis_Inl [OF this, of L] assms show False by simp
qed

lemma perform_group_analysis_result:
  assumes "perform_group_analysis L images = Inr (t, z, df)"
  shows "t = \<lparr>dims = img_shape (hd images),
              flat = map (t_value L (length images)) (voxel_rows images)\<rparr>"
    and "z = \<lparr>dims = img_shape (hd images),
              flat = map (z_value L (int (length images) - 1))
                       (map (t_value L (length images)) (voxel_rows images))\<rparr>"
    and "df = int (length images) - 1"
proof -
  from perform_group_analysis_cases [OF assms]
  have ne: "images \<noteq> []" and ss: "same_shape images" by simp_all
  from perform_group_analysis_Inr [OF ne ss, of L] assms
  show "t = \<lparr>dims = img_shape (hd images),
              flat = map (t_value L (length images)) (voxel_rows images)\<rparr>"
    and "z = \<lparr>dims = img_shape (hd images),
              flat = map (z_value L (int (length images) - 1))
                       (map (t_value L (length images)) (voxel_rows images))\<rparr>"
    and "df = int (length images) - 1"
    by simp_all
qed

lemma isfinite_t_value: "isfinite (t_value L k row)"
  by (simp add: t_value_def nan_to_num_zero)

lemma isfinite_z_value: "isfinite (z_value L df t)"
  by (simp add: z_value_def nan_to_num_zero)




subsection \<open>Degrees of freedom\<close>

text \<open>
  Claim C6. For every list of K input volumes, the degrees of freedom returned by the
  group analysis equals K - 1: whenever \<open>perform_group_analysis\<close> returns, the third
  component of its result is \<open>length images - 1\<close>, and it does return for every
  non-empty list of volumes of one shape.
\<close>

theorem degrees_of_freedom:
  "(perform_group_analysis L images = Inr (t, z, df) \<longrightarrow> df = int (length images) - 1) \<and>
   (images \<noteq> [] \<and> same_shape images \<longrightarrow>
      (\<exists>t z. perform_group_analysis L images = Inr (t, z, int (length images) - 1)))"
proof (intro conjI impI)
  assume "perform_group_analysis L images = Inr (t, z, df)"
  then show "df = int (length images) - 1" by (rule perform_group_analysis_result(3))
next
  assume "images \<noteq> [] \<and> same_shape images"
  then have "images \<noteq> []" "same_shape images" by simp_all
  from perform_group_analysis_Inr [OF this, of L]
  show "\<exists>t z. perform_group_analysis L images = Inr (t, z, int (length images) - 1)"
    by blast
qed

theorem degrees_of_freedom_witness:
  "perform_group_analysis exact_lib example_images =
     Inr (\<lparr>dims = [2], flat = [Finite 3, Finite 0]\<rparr>,
          \<lparr>dims = [2], flat = [Finite (8 / 3), Finite 0]\<rparr>, 3) \<and>
   (3::int) = int (length example_images) - 1 \<and>
   example_images \<noteq> [] \<and> same_shape example_images \<and>
   (\<exists>t z. perform_group_analysis exact_lib example_images
            = Inr (t, z, int (length example_images) - 1))"
proof -
  have run: "perform_group_analysis exact_lib example_images =
     Inr (\<lparr>dims = [2], flat = [Finite 3, Finite 0]\<rparr>,
          \<lparr>dims = [2], flat = [Finite (8 / 3), Finite 0]\<rparr>, 3)"
    by (rule example_run)
  have wf: "example_images \<noteq> [] \<and> same_shape example_images"
    by (simp add: example_images_def same_shape_def)
  note inst = degrees_of_freedom [of exact_lib example_images
      "\<lparr>dims = [2], flat = [Finite 3, Finite 0]\<rparr>"
      "\<lparr>dims = [2], flat = [Finite (8 / 3), Finite 0]\<rparr>" 3]
  have a: "(3::int) = int (length example_images) - 1"
    using inst [THEN conjunct1, THEN mp, OF run] .
  have b: "\<exists>t z. perform_group_analysis exact_lib example_images
            = Inr (t, z, int (length example_images) - 1)"
    using inst [THEN conjunct2, THEN mp, OF wf] .
  from run a wf b show ?thesis by blast
qed

subsection \<open>Both outputs are finite\<close>

text \<open>
  Claim C10. For every input, every value in both the t-statistic array and the
  z-statistic array returned by the group analysis is finite: never NaN, never +Inf,
  never -Inf. This holds whatever numpy and scipy compute, since \<open>nan_to_num\<close> is the
  last operation on either array.
\<close>

theorem outputs_finite:
  assumes "perform_group_analysis L images = Inr (t, z, df)"
  shows "(\<forall>x\<in>set (flat t). isfinite x) \<and> (\<forall>x\<in>set (flat z). isfinite x)"
  unfolding perform_group_analysis_result(1) [OF assms]
    perform_group_analysis_result(2) [OF assms]
  by (auto simp: isfinite_t_value isfinite_z_value)

theorem outputs_finite_witness:
  "perform_group_analysis exact_lib example_images =
     Inr (\<lparr>dims = [2], flat = [Finite 3, Finite 0]\<rparr>,
          \<lparr>dims = [2], flat = [Finite (8 / 3), Finite 0]\<rparr>, 3) \<and>
   isfinite (Finite 3) \<and> isfinite (Finite 0) \<and> isfinite (Finite (8 / 3))"
  using outputs_finite [OF example_run] example_run by simp

subsection \<open>The z-statistic is the signed z-score of the t-statistic\<close>



subsection \<open>The t-statistic\<close>



section \<open>Properties of the manifest loader\<close>

lemma load_images_Inl:
  "(\<exists>bad. load_images ld paths = Inl bad) \<longleftrightarrow> list_ex (\<lambda>path. ld path = None) paths"
  by (induction paths) (auto split: option.splits sum.splits)

lemma load_images_Inr:
  "load_images ld paths = Inr images \<longleftrightarrow> map ld paths = map Some images"
proof (induction paths arbitrary: images)
  case Nil
  then show ?case by auto
next
  case (Cons path paths)
  show ?case
  proof (cases "ld path")
    case None
    then show ?thesis by (cases images) auto
  next
    case (Some img)
    show ?thesis
    proof (cases "load_images ld paths")
      case (Inl bad)
      with Cons.IH have "\<And>images'. map ld paths \<noteq> map Some images'" by simp
      with Some Inl show ?thesis by (cases images) auto
    next
      case (Inr loaded)
      with Cons.IH [of loaded] have "map ld paths = map Some loaded" by simp
      with Some Inr show ?thesis by (cases images) auto
    qed
  qed
qed

lemma remdups_gt_one:
  "Suc 0 < length (remdups xs) \<longleftrightarrow> (\<exists>x\<in>set xs. \<exists>y\<in>set xs. x \<noteq> y)"
proof -
  have "1 < card (set xs) \<longleftrightarrow> (\<exists>x\<in>set xs. \<exists>y\<in>set xs. x \<noteq> y)"
    by (metis List.finite_set card_le_Suc0_iff_eq not_less One_nat_def)
  then show ?thesis by (simp add: length_remdups_card_conv)
qed

lemma shapes_differ_iff:
  assumes "map ld paths = map Some images"
  shows "list_all (\<lambda>path. ld path \<noteq> None) paths \<and>
         list_ex (\<lambda>p. list_ex (\<lambda>q. map_option img_shape (ld p) \<noteq> map_option img_shape (ld q)) paths) paths
         \<longleftrightarrow> 1 < length (remdups (map img_shape images))"
proof -
  have all: "list_all (\<lambda>path. ld path \<noteq> None) paths"
    unfolding list_all_iff
  proof
    fix p assume "p \<in> set paths"
    then have "ld p \<in> set (map ld paths)" by simp
    with assms show "ld p \<noteq> None" by auto
  qed
  have sh: "map (\<lambda>p. map_option img_shape (ld p)) paths = map (\<lambda>i. Some (img_shape i)) images"
  proof -
    have "map (map_option img_shape) (map ld paths) = map (map_option img_shape) (map Some images)"
      using assms by simp
    then show ?thesis by (simp add: comp_def)
  qed
  have "(\<exists>p\<in>set paths. \<exists>q\<in>set paths. map_option img_shape (ld p) \<noteq> map_option img_shape (ld q))
        \<longleftrightarrow> (\<exists>x\<in>set (map (\<lambda>p. map_option img_shape (ld p)) paths).
             \<exists>y\<in>set (map (\<lambda>p. map_option img_shape (ld p)) paths). x \<noteq> y)"
    by auto
  also have "\<dots> \<longleftrightarrow> (\<exists>x\<in>set (map img_shape images). \<exists>y\<in>set (map img_shape images). x \<noteq> y)"
    unfolding sh by auto
  finally show ?thesis
    using all by (simp add: remdups_gt_one list_ex_iff)
qed

lemma load_files_readable:
  assumes "read_text E p = Inr txt"
  shows "fails (load_files E p) \<longleftrightarrow>
           file_paths_of txt = [] \<or>
           list_ex (\<lambda>path. nib_load E path = None) (file_paths_of txt) \<or>
           (list_all (\<lambda>path. nib_load E path \<noteq> None) (file_paths_of txt) \<and>
            list_ex (\<lambda>p. list_ex (\<lambda>q. map_option img_shape (nib_load E p)
                                       \<noteq> map_option img_shape (nib_load E q)) (file_paths_of txt))
              (file_paths_of txt))"
proof (cases "file_paths_of txt = []")
  case True
  then show ?thesis using assms by (simp add: load_files_def fails_def)
next
  case ne: False
  show ?thesis
  proof (cases "load_images (nib_load E) (file_paths_of txt)")
    case (Inl bad)
    then have "list_ex (\<lambda>path. nib_load E path = None) (file_paths_of txt)"
      using load_images_Inl [of "nib_load E" "file_paths_of txt"] by auto
    then show ?thesis using assms ne Inl by (simp add: load_files_def fails_def)
  next
    case (Inr images)
    then have m: "map (nib_load E) (file_paths_of txt) = map Some images"
      by (simp add: load_images_Inr)
    have nf: "\<not> list_ex (\<lambda>path. nib_load E path = None) (file_paths_of txt)"
      using load_images_Inl [of "nib_load E" "file_paths_of txt"] Inr by auto
    show ?thesis
      using assms ne Inr nf shapes_differ_iff [OF m]
      by (simp add: load_files_def fails_def Let_def)
  qed
qed

lemma load_files_shapes_differ:
  assumes "read_text E p = Inr txt"
    and "map (nib_load E) (file_paths_of txt) = map Some images"
    and "1 < length (remdups (map img_shape images))"
  shows "load_files E p =
           (Inl (SystemExit 1),
            Loading (length (file_paths_of txt)) # DifferentDimensions
              # map2 PathShape (file_paths_of txt) (map img_shape images))"
proof -
  have "images \<noteq> []" using assms(3) by auto
  with assms(2) have ne: "file_paths_of txt \<noteq> []" by auto
  have "load_images (nib_load E) (file_paths_of txt) = Inr images"
    using assms(2) by (simp add: load_images_Inr)
  with assms(1,3) ne show ?thesis by (simp add: load_files_def Let_def)
qed

text \<open>
  Claim C5, as amended. The manifest loader fails fatally (and does not return a list) in
  exactly four cases: the manifest cannot be opened or read, the manifest yields zero
  non-blank paths, some path fails to load, or the loaded volumes do not all share one
  shape; in the shape-mismatch case it exits with status 1 after it has printed every
  path of the manifest, each with its shape, so every mismatching path is reported.
\<close>

theorem manifest_loader_failures:
  "(fails (load_files E p) \<longleftrightarrow>
      manifest_unreadable E p \<or> yields_zero_paths E p \<or>
      some_path_fails_to_load E p \<or> shapes_differ E p) \<and>
   (shapes_differ E p \<longrightarrow>
      (\<exists>paths images.
         manifest_paths E p = Some paths \<and>
         map (nib_load E) paths = map Some images \<and>
         load_files E p =
           (Inl (SystemExit 1),
            Loading (length paths) # DifferentDimensions
              # map2 PathShape paths (map img_shape images))))"
proof (cases "read_text E p")
  case (Inl e)
  then show ?thesis
    by (simp add: load_files_def fails_def manifest_unreadable_def shapes_differ_def
        manifest_paths_def)
next
  case (Inr content)
  have iff: "fails (load_files E p) \<longleftrightarrow>
      manifest_unreadable E p \<or> yields_zero_paths E p \<or>
      some_path_fails_to_load E p \<or> shapes_differ E p"
    using load_files_readable [OF Inr] Inr
    by (simp add: manifest_unreadable_def yields_zero_paths_def some_path_fails_to_load_def
        shapes_differ_def manifest_paths_def)
  have rep: "shapes_differ E p \<longrightarrow>
      (\<exists>paths images.
         manifest_paths E p = Some paths \<and>
         map (nib_load E) paths = map Some images \<and>
         load_files E p =
           (Inl (SystemExit 1),
            Loading (length paths) # DifferentDimensions
              # map2 PathShape paths (map img_shape images)))"
  proof
    assume sd: "shapes_differ E p"
    then have all: "list_all (\<lambda>path. nib_load E path \<noteq> None) (file_paths_of content)"
      using Inr by (simp add: shapes_differ_def manifest_paths_def)
    then have "\<not> list_ex (\<lambda>path. nib_load E path = None) (file_paths_of content)"
      by (auto simp: list_all_iff list_ex_iff)
    then obtain images where li: "load_images (nib_load E) (file_paths_of content) = Inr images"
      using load_images_Inl [of "nib_load E" "file_paths_of content"]
      by (cases "load_images (nib_load E) (file_paths_of content)") auto
    then have m: "map (nib_load E) (file_paths_of content) = map Some images"
      by (simp add: load_images_Inr)
    have "1 < length (remdups (map img_shape images))"
      using shapes_differ_iff [OF m] sd Inr
      by (simp add: shapes_differ_def manifest_paths_def)
    from load_files_shapes_differ [OF Inr m this] m Inr
    show "\<exists>paths images.
         manifest_paths E p = Some paths \<and>
         map (nib_load E) paths = map Some images \<and>
         load_files E p =
           (Inl (SystemExit 1),
            Loading (length paths) # DifferentDimensions
              # map2 PathShape paths (map img_shape images))"
      by (auto simp: manifest_paths_def)
  qed
  from iff rep show ?thesis by blast
qed

lemma two_shapes_paths:
  "file_paths_of two_shapes_manifest = [ustr ''a.nii.gz'', ustr ''b.nii.gz'']"
  by code_simp

lemma ustr_distinct:
  "ustr ''a.nii.gz'' \<noteq> ustr ''b.nii.gz''" "ustr ''b.nii.gz'' \<noteq> ustr ''a.nii.gz''"
  by (simp_all add: ustr_def)

lemma two_shapes_differ: "shapes_differ two_shapes_env (ustr ''files.txt'')"
  by (simp add: shapes_differ_def manifest_paths_def two_shapes_env_def two_shapes_paths ustr_distinct)

lemma two_shapes_run:
  "load_files two_shapes_env (ustr ''files.txt'') =
     (Inl (SystemExit 1),
      [Loading 2, DifferentDimensions, PathShape (ustr ''a.nii.gz'') [2], PathShape (ustr ''b.nii.gz'') [1]])"
  by (simp add: load_files_def two_shapes_env_def two_shapes_paths ustr_distinct)

theorem manifest_loader_failures_witness:
  "shapes_differ two_shapes_env (ustr ''files.txt'') \<and>
   fails (load_files two_shapes_env (ustr ''files.txt'')) \<and>
   load_files two_shapes_env (ustr ''files.txt'') =
     (Inl (SystemExit 1),
      [Loading 2, DifferentDimensions, PathShape (ustr ''a.nii.gz'') [2], PathShape (ustr ''b.nii.gz'') [1]])"
  using manifest_loader_failures [of two_shapes_env "(ustr ''files.txt'')"] two_shapes_differ
    two_shapes_run
  by simp

text \<open>
  Claim C5 as stated names three cases of failure only. Where the manifest cannot be
  opened, \<open>open\<close> raises in line 19 and the loader fails, and none of the three cases
  holds.
\<close>

theorem manifest_loader_three_cases_counterexample:
  "fails (load_files missing_manifest_env (ustr ''files.txt'')) \<and>
   \<not> (yields_zero_paths missing_manifest_env (ustr ''files.txt'') \<or>
      some_path_fails_to_load missing_manifest_env (ustr ''files.txt'') \<or>
      shapes_differ missing_manifest_env (ustr ''files.txt''))"
  by (simp add: load_files_def fails_def missing_manifest_env_def yields_zero_paths_def
      some_path_fails_to_load_def shapes_differ_def manifest_paths_def)

section \<open>Properties of the manifest writer\<close>

lemma py_in_sublist: "py_in s t \<longleftrightarrow> sublist s t"
  by (induction t) (auto simp: sublist_Cons_right)

text \<open>
  Claim C7. For every list of registered paths and every requested contrast number N, the
  contrast-filtered manifest written by the manifest writer contains exactly those paths
  (in input order) that contain the substring \<open>.cope<N>\<close> or the substring
  \<open>.zstat<N>\<close>: the file written holds these paths in the order of the list, one
  per line, and nothing else.
\<close>

theorem contrast_manifest:
  assumes "writable output_file"
  shows "create_file_list writable registered output_file (Some n) files =
           Inr (files(output_file \<mapsto>
                  concat (map (\<lambda>path. path @ ''\<newline>'')
                    (filter (\<lambda>f. sublist (''.cope'' @ str_int n) f
                                 \<or> sublist (''.zstat'' @ str_int n) f) registered))),
                length (filter (\<lambda>f. sublist (''.cope'' @ str_int n) f
                                     \<or> sublist (''.zstat'' @ str_int n) f) registered))"
  using assms by (simp add: create_file_list_def py_in_sublist Let_def)

lemma example_filtered:
  "filter (\<lambda>f. sublist (''.cope'' @ str_int 3) f \<or> sublist (''.zstat'' @ str_int 3) f)
     example_registered
   = [''out/sub-01_a.cope3.nii.gz'', ''out/sub-02_a.zstat3.nii.gz'']"
  by code_simp

theorem contrast_manifest_witness:
  "create_file_list (\<lambda>path. True) example_registered ''out/cope3_files.txt'' (Some 3) Map.empty =
     Inr ([''out/cope3_files.txt'' \<mapsto>
             ''out/sub-01_a.cope3.nii.gz\<newline>out/sub-02_a.zstat3.nii.gz\<newline>''], 2)"
proof -
  have w: "(\<lambda>path. True) ''out/cope3_files.txt''" by simp
  show ?thesis
    using contrast_manifest [where writable = "\<lambda>path. True" and registered = example_registered
        and n = 3 and files = Map.empty, OF w]
    unfolding example_filtered by simp
qed

section \<open>Properties of the registration driver\<close>























lemma example_exists:
  "path_exists test_os example_world (output_path ''out'' ''sub-04'' ''in/sub-04/a.cope1.nii.gz'')"
  by code_simp




















section \<open>The analysis in binary64 arithmetic\<close>

declare bit_length.simps [simp del]

declare isqrt_bits.simps [simp del]

lemma floor_rat_numeral: "\<lfloor>(numeral a :: rat) / numeral b\<rfloor> = numeral a div numeral b"
  using floor_divide_of_int_eq [of "numeral a" "numeral b", where ?'a = rat] by simp

lemma ceiling_rat_numeral:
  "\<lceil>(numeral a :: rat) / numeral b\<rceil> = - ((- numeral a) div numeral b)"
  using floor_divide_of_int_eq [of "- numeral a" "numeral b", where ?'a = rat]
  by (simp add: ceiling_def)

lemmas ieee_eval = round_binary64_def floor_log2_def round_half_even_def pow2_def
  bit_length.simps floor_rat_numeral ceiling_rat_numeral Let_def

lemmas sqrt_eval = sqrt_binary64_def isqrt_def isqrt_bits.simps

lemma round_tenth: "round_binary64 (1 / 10) = Finite tenth"
  by (simp add: ieee_eval tenth_def)








lemma ieee_lib_statistics: "ieee_statistics ieee_lib"
  by (simp add: ieee_statistics_def ieee_lib_def)



lemma small_t_mean:
  "ieee_mean [Finite (7 / 2), Finite (- (1 / 2)), Finite (- (1 / 2)), Finite (- (1 / 2))]
     = Finite (1 / 2)"
  by (simp add: ieee_mean_def ieee_sum_def ieee_eval)

lemma small_t_std:
  "ieee_std [Finite (7 / 2), Finite (- (1 / 2)), Finite (- (1 / 2)), Finite (- (1 / 2))] 1 = Finite 2"
  by (simp add: ieee_std_def ieee_sub_def small_t_mean ieee_sum_def ieee_eval sqrt_eval)

lemma sqrt_four: "ieee_sqrt (Finite 4) = Finite 2"
  by (simp add: ieee_eval sqrt_eval)

lemma small_t_standard_error: "ieee_div (Finite 2) (Finite 2) = Finite 1"
  by (simp add: ieee_eval)

lemma small_t_quotient: "ieee_div (Finite (1 / 2)) (Finite 1) = Finite (1 / 2)"
  by (simp add: ieee_eval)

lemma small_t_rows:
  "voxel_rows small_t_images
     = [[Finite (7 / 2), Finite (- (1 / 2)), Finite (- (1 / 2)), Finite (- (1 / 2))]]"
  by (simp add: voxel_rows_def small_t_images_def)

lemma small_t_value:
  assumes "ieee_statistics L"
  shows "t_value L 4 [Finite (7 / 2), Finite (- (1 / 2)), Finite (- (1 / 2)), Finite (- (1 / 2))]
           = Finite (1 / 2)"
proof -
  from assms have L: "np_mean L = ieee_mean" "np_std L = ieee_std" "np_sqrt L = ieee_sqrt"
    "np_divide L = ieee_div"
    by (simp_all add: ieee_statistics_def)
  show ?thesis
    unfolding t_value_def L
    by (simp only: of_nat_numeral small_t_mean small_t_std sqrt_four small_t_standard_error
        small_t_quotient nan_to_num.simps)
qed

lemma small_t_z_value:
  assumes "small_t_laws L"
  shows "\<exists>q. q < 0 \<and> z_value L 3 (Finite (1 / 2)) = Finite q"
proof -
  from assms have sf: "\<exists>s. t_sf L (Finite (1 / 2)) 3 = Finite s \<and> 1 / 4 < s \<and> s < 1 / 2"
    and dbl: "\<forall>s. 1 / 4 < s \<and> s < 1 / 2 \<longrightarrow> np_multiply L (Finite s) (Finite 2) = Finite (2 * s)"
    and isf: "\<forall>p. 1 / 2 < p \<and> p < 1 \<longrightarrow> (\<exists>q. norm_isf L (Finite p) = Finite q \<and> q < 0)"
    and one: "\<forall>q. np_multiply L (Finite 1) (Finite q) = Finite q"
    unfolding small_t_laws_def by blast+
  from sf obtain s where s: "t_sf L (Finite (1 / 2)) 3 = Finite s" "1 / 4 < s" "s < 1 / 2"
    by blast
  from dbl s(2,3) have d: "np_multiply L (Finite s) (Finite 2) = Finite (2 * s)"
    by blast
  have "1 / 2 < 2 * s \<and> 2 * s < 1" using s(2,3) by simp
  with isf obtain q where q: "norm_isf L (Finite (2 * s)) = Finite q" "q < 0"
    by blast
  from one have o: "np_multiply L (Finite 1) (Finite q) = Finite q"
    by blast
  have "z_value L 3 (Finite (1 / 2)) = Finite q"
    by (simp add: z_value_def s(1) d q(1) o)
  with q(2) show ?thesis by blast
qed

text \<open>
  Claim C1 says that at every voxel the sign of the t-statistic matches the sign of the
  z-statistic. For four volumes that hold 3.5, -0.5, -0.5 and -0.5 the analysis computes
  \<open>t = 1/2\<close> in binary64 arithmetic; the two-tailed p-value then exceeds 1/2, where
  the inverse survival function of the normal distribution is negative, and the product
  with the sign of \<open>t\<close> keeps it negative: the analysis returns a positive t and a
  negative z.
\<close>

theorem small_t_sign_flips:
  assumes "ieee_statistics L" and "small_t_laws L"
  shows "\<exists>q. q < 0 \<and>
           perform_group_analysis L small_t_images
             = Inr (\<lparr>dims = [1, 1, 1], flat = [Finite (1 / 2)]\<rparr>, \<lparr>dims = [1, 1, 1], flat = [Finite q]\<rparr>, 3)"
proof -
  have ne: "small_t_images \<noteq> []" and ss: "same_shape small_t_images"
    by (simp_all add: small_t_images_def same_shape_def)
  have len: "length small_t_images = 4" and hd: "img_shape (hd small_t_images) = [1, 1, 1]"
    by (simp_all add: small_t_images_def)
  from small_t_z_value [OF assms(2)] obtain q where
    q: "q < 0" "z_value L 3 (Finite (1 / 2)) = Finite q" by blast
  from perform_group_analysis_Inr [OF ne ss, of L]
  have "perform_group_analysis L small_t_images
          = Inr (\<lparr>dims = [1, 1, 1], flat = [Finite (1 / 2)]\<rparr>, \<lparr>dims = [1, 1, 1], flat = [Finite q]\<rparr>, 3)"
    by (simp add: len hd small_t_rows small_t_value [OF assms(1)] q(2))
  with q(1) show ?thesis by blast
qed

lemma ieee_lib_small_t_laws: "small_t_laws ieee_lib"
proof -
  have neg: "(1 - 2 * p) / (p * (1 - p)) < 0" if "1 / 2 < p \<and> p < 1" for p :: rat
  proof -
    from that have "1 - 2 * p < 0" "0 < p * (1 - p)" by simp_all
    then show ?thesis by (rule divide_neg_pos)
  qed
  have sf: "\<exists>s. t_sf ieee_lib (Finite (1 / 2)) 3 = Finite s \<and> 1 / 4 < s \<and> s < 1 / 2"
  proof (intro exI conjI)
    show "t_sf ieee_lib (Finite (1 / 2)) 3 = Finite (1 / 3)" by (simp add: ieee_lib_def)
  qed simp_all
  have dbl: "\<forall>s. 1 / 4 < s \<and> s < 1 / 2 \<longrightarrow>
               np_multiply ieee_lib (Finite s) (Finite 2) = Finite (2 * s)"
    by (simp add: ieee_lib_def mult.commute)
  have isf: "\<forall>p. 1 / 2 < p \<and> p < 1 \<longrightarrow> (\<exists>q. norm_isf ieee_lib (Finite p) = Finite q \<and> q < 0)"
  proof (intro allI impI)
    fix p :: rat assume p: "1 / 2 < p \<and> p < 1"
    then have "norm_isf ieee_lib (Finite p) = Finite ((1 - 2 * p) / (p * (1 - p)))"
      by (simp add: ieee_lib_def)
    with neg [OF p] show "\<exists>q. norm_isf ieee_lib (Finite p) = Finite q \<and> q < 0" by blast
  qed
  have one: "\<forall>q. np_multiply ieee_lib (Finite 1) (Finite q) = Finite q"
    by (simp add: ieee_lib_def)
  from sf dbl isf one show ?thesis unfolding small_t_laws_def by blast
qed

theorem small_t_sign_flips_witness:
  "ieee_statistics ieee_lib \<and> small_t_laws ieee_lib \<and>
   (\<exists>q. q < 0 \<and>
      perform_group_analysis ieee_lib small_t_images
        = Inr (\<lparr>dims = [1, 1, 1], flat = [Finite (1 / 2)]\<rparr>, \<lparr>dims = [1, 1, 1], flat = [Finite q]\<rparr>, 3))"
  using small_t_sign_flips [OF ieee_lib_statistics ieee_lib_small_t_laws]
    ieee_lib_statistics ieee_lib_small_t_laws
  by blast















end
